theory Spec2Isabelle
  imports Main
begin

section \<open>Data model\<close>

text \<open>
  The bot keeps one JSON object in Redis under the key \<^verbatim>\<open>medicine_bot_data\<close>: a
  dictionary from LINE user ids to user profiles. Numbers are JavaScript numbers that the
  program only ever produces from \<^verbatim>\<open>parseInt\<close> on digit strings and from addition and
  subtraction; they are modelled as unbounded integers. Timestamps are milliseconds as
  \<^verbatim>\<open>Date.now()\<close> returns them. The field \<^verbatim>\<open>id\<close> of a medicine is \<open>med_id\<close> here, and
  the field \<^verbatim>\<open>timeSlot\<close> of a pending reminder is \<open>p_timeSlot\<close>.
\<close>

record medicine =
  med_id :: string
  name :: string
  totalPills :: int
  remainingPills :: int
  pillsPerDose :: int
  timeSlot :: int
  createdAt :: string

record settings =
  time1 :: string
  time2 :: string

record user =
  medicines :: "medicine list"
  settings :: settings
  alertedMedicines :: "string \<rightharpoonup> int"

record pending =
  p_timeSlot :: int
  timestamp :: int

text \<open>
  The process state. \<open>redis\<close> is the value stored under the bot's key (\<open>None\<close> while the
  key is absent). \<open>faults\<close> lists, for the Redis calls still to come, whether each one
  throws; when the list is exhausted every call succeeds. \<open>errlog\<close> collects the lines
  written by \<^verbatim>\<open>console.error\<close>. \<open>pendingReminders\<close> is the module-level \<^verbatim>\<open>Map\<close>, and
  \<open>timers\<close> the callbacks registered with \<^verbatim>\<open>setTimeout\<close> that have not run yet, each with
  the time it becomes due and the user id its closure deletes.
\<close>

datatype log_line = Error_loading_data | Error_saving_data

record world =
  redis :: "(string \<rightharpoonup> user) option"
  faults :: "bool list"
  errlog :: "log_line list"
  pendingReminders :: "string \<rightharpoonup> pending"
  timers :: "(int \<times> string) list"

section \<open>Reminder state\<close>

definition thirty_minutes :: int where
  "thirty_minutes = 30 * 60 * 1000"

text \<open>\<^verbatim>\<open>setPendingReminder\<close>: store the entry, register a timer that deletes the key.\<close>

definition setPendingReminder :: "int \<Rightarrow> string \<Rightarrow> int \<Rightarrow> world \<Rightarrow> world" where
  "setPendingReminder now userId slot w =
     w\<lparr>pendingReminders :=
         (pendingReminders w)(userId \<mapsto> \<lparr>p_timeSlot = slot, timestamp = now\<rparr>),
       timers := timers w @ [(now + thirty_minutes, userId)]\<rparr>"

text \<open>
  The event loop runs every timer that is due, in registration order; the callback is
  \<^verbatim>\<open>pendingReminders.delete(userId)\<close> whatever the entry stored under the key.
\<close>

fun fireTimers :: "int \<Rightarrow> (int \<times> string) list \<Rightarrow> (string \<rightharpoonup> pending) \<Rightarrow> (string \<rightharpoonup> pending)" where
  "fireTimers now [] m = m"
| "fireTimers now ((due, userId) # ts) m =
     fireTimers now ts (if due \<le> now then m(userId := None) else m)"

definition runTimers :: "int \<Rightarrow> world \<Rightarrow> world" where
  "runTimers now w =
     w\<lparr>pendingReminders := fireTimers now (timers w) (pendingReminders w),
       timers := filter (\<lambda>(due, userId). \<not> due \<le> now) (timers w)\<rparr>"

text \<open>\<^verbatim>\<open>getPendingReminder\<close>: the entry, unless it is older than 30 minutes.\<close>

definition getPendingReminder :: "int \<Rightarrow> string \<Rightarrow> world \<Rightarrow> pending option \<times> world" where
  "getPendingReminder now userId w =
     (case pendingReminders w userId of
        None \<Rightarrow> (None, w)
      | Some p \<Rightarrow>
          (let elapsed = now - timestamp p in
           if elapsed > thirty_minutes
           then (None, w\<lparr>pendingReminders := (pendingReminders w)(userId := None)\<rparr>)
           else (Some p, w)))"

section \<open>JavaScript helpers\<close>

text \<open>
  \<^verbatim>\<open>Array.prototype.findIndex\<close>, with \<open>None\<close> for \<^verbatim>\<open>-1\<close>. \<^verbatim>\<open>find\<close> returns a reference
  to the element at that index, so code that mutates the object \<^verbatim>\<open>find\<close> returned is
  modelled as an update of the list at the index.
\<close>

fun findIndex :: "('a \<Rightarrow> bool) \<Rightarrow> 'a list \<Rightarrow> nat option" where
  "findIndex P [] = None"
| "findIndex P (x # xs) = (if P x then Some 0 else map_option Suc (findIndex P xs))"

text \<open>
  \<^verbatim>\<open>String.prototype.toLowerCase\<close> on the letters A to Z; every other character is
  left as it is (Thai script, which the bot's users write, has no case).
\<close>

definition lower_char :: "char \<Rightarrow> char" where
  "lower_char c =
     (case map_of (zip ''ABCDEFGHIJKLMNOPQRSTUVWXYZ'' ''abcdefghijklmnopqrstuvwxyz'') c of
        None \<Rightarrow> c
      | Some l \<Rightarrow> l)"

definition toLowerCase :: "string \<Rightarrow> string" where
  "toLowerCase s = map lower_char s"

text \<open>\<^verbatim>\<open>String.prototype.includes\<close>: the needle occurs at some position of the string.\<close>

fun starts_with :: "string \<Rightarrow> string \<Rightarrow> bool" where
  "starts_with s [] = True"
| "starts_with [] (c # cs) = False"
| "starts_with (d # ds) (c # cs) = (d = c \<and> starts_with ds cs)"

fun includes_str :: "string \<Rightarrow> string \<Rightarrow> bool" where
  "includes_str [] needle = (needle = [])"
| "includes_str (c # cs) needle = (starts_with (c # cs) needle \<or> includes_str cs needle)"

text \<open>
  \<^verbatim>\<open>parseInt\<close> on a string that starts with decimal digits: the value of the longest
  digit prefix, \<open>None\<close> (NaN) when there is none. Leading white space, signs and the
  \<^verbatim>\<open>0x\<close> prefix are not modelled: the only strings the modelled code parses are the
  hour parts of the times written by \<^verbatim>\<open>setTime\<close> and of the defaults.
\<close>

definition is_digit :: "char \<Rightarrow> bool" where
  "is_digit c = (c \<in> set ''0123456789'')"

definition parseInt :: "string \<Rightarrow> int option" where
  "parseInt s =
     (let ds = takeWhile is_digit s in
      if ds = [] then None
      else Some (foldl (\<lambda>acc c. acc * 10 + (int (of_char c) - 48)) 0 ds))"

text \<open>A template literal's rendering of an integer.\<close>

definition digit_char :: "nat \<Rightarrow> char" where
  "digit_char d = ''0123456789'' ! d"

function decimal :: "nat \<Rightarrow> string" where
  "decimal n = (if n < 10 then [digit_char n] else decimal (n div 10) @ [digit_char (n mod 10)])"
  by pat_completeness auto
termination
  by (relation "measure (\<lambda>n. n)") auto

definition show_int :: "int \<Rightarrow> string" where
  "show_int i = (if i < 0 then CHR ''-'' # decimal (nat (- i)) else decimal (nat i))"

text \<open>\<^verbatim>\<open>!x\<close> and \<^verbatim>\<open>x < 2\<close> on a ledger entry that may be \<^verbatim>\<open>undefined\<close>.\<close>

definition falsy :: "int option \<Rightarrow> bool" where
  "falsy v = (case v of None \<Rightarrow> True | Some n \<Rightarrow> n = 0)"

definition less_than_2 :: "int option \<Rightarrow> bool" where
  "less_than_2 v = (case v of None \<Rightarrow> False | Some n \<Rightarrow> n < 2)"

section \<open>Medicine functions on a profile\<close>

text \<open>
  Each medicine function of the source loads the profile with \<^verbatim>\<open>getUser\<close>, works on
  it, and writes it back with \<^verbatim>\<open>saveUser\<close>. The work in between is given here as a
  function on the profile; the functions with the source's names, further down, wrap it
  in the two store accesses.

  The failure messages are Thai text in the source: \<open>Not_found\<close> is the constant message
  of the three functions, \<open>Depleted n\<close> the message built from the medicine's name \<open>n\<close>.
\<close>

datatype message = Not_found | Depleted string

definition defaultUser :: user where
  "defaultUser =
     \<lparr>medicines = [], settings = \<lparr>time1 = ''08:00'', time2 = ''20:00''\<rparr>,
      alertedMedicines = Map.empty\<rparr>"

text \<open>
  \<^verbatim>\<open>addMedicine\<close>. The three numbers reach it as the \<^verbatim>\<open>\d+\<close> and \<^verbatim>\<open>[12]\<close> captures of
  the command's pattern, so \<^verbatim>\<open>parseInt\<close> gives a natural number. \<open>now\<close> is
  \<^verbatim>\<open>Date.now()\<close> and \<open>isoText\<close> the text of \<^verbatim>\<open>new Date().toISOString()\<close>.
\<close>

definition addMedicine_profile ::
  "int \<Rightarrow> string \<Rightarrow> user \<Rightarrow> string \<Rightarrow> nat \<Rightarrow> nat \<Rightarrow> nat \<Rightarrow> medicine \<times> user" where
  "addMedicine_profile now isoText u nm nTotal nPerDose nSlot =
     (let m = \<lparr>med_id = ''med_'' @ show_int now, name = nm, totalPills = int nTotal,
                remainingPills = int nTotal, pillsPerDose = int nPerDose,
                timeSlot = int nSlot, createdAt = isoText\<rparr>
      in (m, u\<lparr>medicines := medicines u @ [m]\<rparr>))"

text \<open>\<^verbatim>\<open>takeMedicine\<close>: the result is the failure message, or the updated medicine with
  the low-stock alert (the medicine and the alert number) if there is one.\<close>

definition takeMedicine_profile ::
  "user \<Rightarrow> string \<Rightarrow> (message + medicine \<times> (medicine \<times> int) option) \<times> user" where
  "takeMedicine_profile u medicineId =
     (case findIndex (\<lambda>m. med_id m = medicineId) (medicines u) of
        None \<Rightarrow> (Inl Not_found, u)
      | Some i \<Rightarrow>
          (let m = medicines u ! i in
           if remainingPills m < pillsPerDose m then (Inl (Depleted (name m)), u)
           else
             (let m' = m\<lparr>remainingPills := remainingPills m - pillsPerDose m\<rparr>;
                  u' = u\<lparr>medicines := (medicines u)[i := m']\<rparr>;
                  alerted = alertedMedicines u medicineId
              in if remainingPills m' \<le> 5 \<and> (falsy alerted \<or> less_than_2 alerted)
                 then (Inr (m', Some (m', 2)),
                       u'\<lparr>alertedMedicines := (alertedMedicines u)(medicineId \<mapsto> 2)\<rparr>)
                 else if remainingPills m' \<le> 10 \<and> remainingPills m' > 5 \<and> falsy alerted
                 then (Inr (m', Some (m', 1)),
                       u'\<lparr>alertedMedicines := (alertedMedicines u)(medicineId \<mapsto> 1)\<rparr>)
                 else (Inr (m', None), u'))))"

text \<open>The name test shared by refill, delete and take-by-name.\<close>

definition name_includes :: "string \<Rightarrow> medicine \<Rightarrow> bool" where
  "name_includes medicineName m =
     includes_str (toLowerCase (name m)) (toLowerCase medicineName)"

text \<open>\<^verbatim>\<open>delete user.alertedMedicines[id]\<close>, guarded by the entry being truthy.\<close>

definition forget_alert :: "string \<Rightarrow> (string \<rightharpoonup> int) \<Rightarrow> (string \<rightharpoonup> int)" where
  "forget_alert k alerted = (if \<not> falsy (alerted k) then alerted(k := None) else alerted)"

definition refillMedicine_profile ::
  "user \<Rightarrow> string \<Rightarrow> nat \<Rightarrow> (message + medicine) \<times> user" where
  "refillMedicine_profile u medicineName amount =
     (case findIndex (name_includes medicineName) (medicines u) of
        None \<Rightarrow> (Inl Not_found, u)
      | Some i \<Rightarrow>
          (let m = medicines u ! i;
               m' = m\<lparr>remainingPills := remainingPills m + int amount\<rparr>
           in (Inr m',
               u\<lparr>medicines := (medicines u)[i := m'],
                 alertedMedicines := forget_alert (med_id m') (alertedMedicines u)\<rparr>)))"

definition setTime_profile :: "user \<Rightarrow> int \<Rightarrow> string \<Rightarrow> user" where
  "setTime_profile u slot time =
     (if slot = 1 then u\<lparr>settings := (settings u)\<lparr>time1 := time\<rparr>\<rparr>
      else u\<lparr>settings := (settings u)\<lparr>time2 := time\<rparr>\<rparr>)"

definition deleteMedicine_profile ::
  "user \<Rightarrow> string \<Rightarrow> (message + medicine) \<times> user" where
  "deleteMedicine_profile u medicineName =
     (case findIndex (name_includes medicineName) (medicines u) of
        None \<Rightarrow> (Inl Not_found, u)
      | Some i \<Rightarrow>
          (let deleted = medicines u ! i
           in (Inr deleted,
               u\<lparr>medicines := take i (medicines u) @ drop (Suc i) (medicines u),
                 alertedMedicines := forget_alert (med_id deleted) (alertedMedicines u)\<rparr>)))"

section \<open>Redis storage\<close>

text \<open>One call of the Redis client: it throws when the next fault flag says so.\<close>

definition redis_call :: "world \<Rightarrow> bool \<times> world" where
  "redis_call w =
     (case faults w of
        [] \<Rightarrow> (False, w)
      | f # fs \<Rightarrow> (f, w\<lparr>faults := fs\<rparr>))"

text \<open>\<^verbatim>\<open>loadData\<close>: the stored object, or the empty object when the key is absent and
  when the call throws (the error is logged and swallowed).\<close>

definition loadData :: "world \<Rightarrow> (string \<rightharpoonup> user) \<times> world" where
  "loadData w =
     (case redis_call w of
        (True, w1) \<Rightarrow> (Map.empty, w1\<lparr>errlog := errlog w1 @ [Error_loading_data]\<rparr>)
      | (False, w1) \<Rightarrow>
          (case redis w1 of None \<Rightarrow> (Map.empty, w1) | Some d \<Rightarrow> (d, w1)))"

text \<open>\<^verbatim>\<open>saveData\<close>: replaces the stored object; a throwing call is logged and swallowed.\<close>

definition saveData :: "(string \<rightharpoonup> user) \<Rightarrow> world \<Rightarrow> world" where
  "saveData d w =
     (case redis_call w of
        (True, w1) \<Rightarrow> w1\<lparr>errlog := errlog w1 @ [Error_saving_data]\<rparr>
      | (False, w1) \<Rightarrow> w1\<lparr>redis := Some d\<rparr>)"

definition getUser :: "string \<Rightarrow> world \<Rightarrow> user \<times> world" where
  "getUser userId w =
     (case loadData w of
        (d, w1) \<Rightarrow>
          (case d userId of
             None \<Rightarrow> (defaultUser, saveData (d(userId \<mapsto> defaultUser)) w1)
           | Some u \<Rightarrow> (u, w1)))"

definition saveUser :: "string \<Rightarrow> user \<Rightarrow> world \<Rightarrow> world" where
  "saveUser userId userData w =
     (case loadData w of (d, w1) \<Rightarrow> saveData (d(userId \<mapsto> userData)) w1)"

section \<open>Medicine functions\<close>

definition addMedicine ::
  "int \<Rightarrow> string \<Rightarrow> string \<Rightarrow> string \<Rightarrow> nat \<Rightarrow> nat \<Rightarrow> nat \<Rightarrow> world \<Rightarrow> medicine \<times> world" where
  "addMedicine now isoText userId nm nTotal nPerDose nSlot w =
     (case getUser userId w of
        (u, w1) \<Rightarrow>
          (case addMedicine_profile now isoText u nm nTotal nPerDose nSlot of
             (m, u') \<Rightarrow> (m, saveUser userId u' w1)))"

text \<open>The two failure exits of \<^verbatim>\<open>takeMedicine\<close> return before \<^verbatim>\<open>saveUser\<close>.\<close>

definition takeMedicine ::
  "string \<Rightarrow> string \<Rightarrow> world \<Rightarrow> (message + medicine \<times> (medicine \<times> int) option) \<times> world" where
  "takeMedicine userId medicineId w =
     (case getUser userId w of
        (u, w1) \<Rightarrow>
          (case takeMedicine_profile u medicineId of
             (Inl msg, u') \<Rightarrow> (Inl msg, w1)
           | (Inr r, u') \<Rightarrow> (Inr r, saveUser userId u' w1)))"

definition refillMedicine ::
  "string \<Rightarrow> string \<Rightarrow> nat \<Rightarrow> world \<Rightarrow> (message + medicine) \<times> world" where
  "refillMedicine userId medicineName amount w =
     (case getUser userId w of
        (u, w1) \<Rightarrow>
          (case refillMedicine_profile u medicineName amount of
             (Inl msg, u') \<Rightarrow> (Inl msg, w1)
           | (Inr m, u') \<Rightarrow> (Inr m, saveUser userId u' w1)))"

definition setTime :: "string \<Rightarrow> int \<Rightarrow> string \<Rightarrow> world \<Rightarrow> settings \<times> world" where
  "setTime userId slot time w =
     (case getUser userId w of
        (u, w1) \<Rightarrow>
          (let u' = setTime_profile u slot time
           in (settings u', saveUser userId u' w1)))"

definition deleteMedicine ::
  "string \<Rightarrow> string \<Rightarrow> world \<Rightarrow> (message + medicine) \<times> world" where
  "deleteMedicine userId medicineName w =
     (case getUser userId w of
        (u, w1) \<Rightarrow>
          (case deleteMedicine_profile u medicineName of
             (Inl msg, u') \<Rightarrow> (Inl msg, w1)
           | (Inr m, u') \<Rightarrow> (Inr m, saveUser userId u' w1)))"

section \<open>Handlers\<close>

text \<open>
  What is sent back: the constructor says which message of the source it is, the
  arguments are the values the message text is built from.
\<close>

datatype reply =
    Reply_hello
  | Reply_nothing_to_take int
  | Reply_recorded "medicine list" "(medicine \<times> int) list"
  | Reply_which_medicine
  | Reply_name_not_found string
  | Reply_failure message
  | Reply_taken medicine "(medicine \<times> int) option"
  | Reply_refilled medicine nat
  | Reply_deleted medicine
  | Reply_added medicine string
  | Reply_time_set int string settings
  | Reply_no_medicines_yet
  | Reply_no_medicines
  | Reply_summary user
  | Reply_times settings
  | Reply_help
  | Reply_hint

text \<open>
  The loop of \<^verbatim>\<open>processTakeMedicine\<close> over \<^verbatim>\<open>medicinesToTake\<close>: one
  \<^verbatim>\<open>takeMedicine\<close> per medicine, by its id; a successful result adds its lines to the
  message and its alert to \<^verbatim>\<open>lowStockAlerts\<close>, a failed one adds nothing.
\<close>

fun takeEach ::
  "string \<Rightarrow> medicine list \<Rightarrow> world \<Rightarrow> medicine list \<times> (medicine \<times> int) list \<times> world" where
  "takeEach userId [] w = ([], [], w)"
| "takeEach userId (med # meds) w =
     (case takeMedicine userId (med_id med) w of
        (Inl msg, w1) \<Rightarrow> takeEach userId meds w1
      | (Inr (m, alert), w1) \<Rightarrow>
          (case takeEach userId meds w1 of
             (recorded, alerts, w2) \<Rightarrow>
               (m # recorded, (case alert of None \<Rightarrow> [] | Some a \<Rightarrow> [a]) @ alerts, w2)))"

definition processTakeMedicine :: "string \<Rightarrow> user \<Rightarrow> int \<Rightarrow> world \<Rightarrow> reply \<times> world" where
  "processTakeMedicine userId usr slot w =
     (let medicinesToTake =
            filter (\<lambda>m. timeSlot m = slot \<and> remainingPills m > 0) (medicines usr)
      in if length medicinesToTake = 0 then (Reply_nothing_to_take slot, w)
         else
           (case takeEach userId medicinesToTake w of
              (recorded, alerts, w1) \<Rightarrow>
                (Reply_recorded recorded alerts,
                 w1\<lparr>pendingReminders := (pendingReminders w1)(userId := None)\<rparr>)))"

text \<open>
  The slot inferred from the clock, as both the sticker handler and the text handler
  compute it: \<^verbatim>\<open>parseInt(time.split(':')[0])\<close> for both times, then the two tests in
  order. A comparison with NaN is false.
\<close>

definition hour_of :: "string \<Rightarrow> int option" where
  "hour_of time = parseInt (takeWhile (\<lambda>c. c \<noteq> CHR '':'') time)"

definition near :: "int \<Rightarrow> int option \<Rightarrow> bool" where
  "near currentHour h = (case h of None \<Rightarrow> False | Some t \<Rightarrow> \<bar>currentHour - t\<bar> \<le> 2)"

definition slot_by_clock :: "int \<Rightarrow> settings \<Rightarrow> int option" where
  "slot_by_clock currentHour st =
     (let time1Hour = hour_of (time1 st); time2Hour = hour_of (time2 st)
      in if near currentHour time1Hour then Some 1
         else if near currentHour time2Hour then Some 2
         else None)"

text \<open>\<open>now\<close> is \<^verbatim>\<open>Date.now()\<close>, \<open>currentHour\<close> is \<^verbatim>\<open>getThaiDate().getHours()\<close>.\<close>

definition handleStickerMessage ::
  "int \<Rightarrow> int \<Rightarrow> string \<Rightarrow> user \<Rightarrow> world \<Rightarrow> reply \<times> world" where
  "handleStickerMessage now currentHour userId usr w =
     (case getPendingReminder now userId w of
        (None, w1) \<Rightarrow>
          (case slot_by_clock currentHour (settings usr) of
             None \<Rightarrow> (Reply_hello, w1)
           | Some currentSlot \<Rightarrow> processTakeMedicine userId usr currentSlot w1)
      | (Some p, w1) \<Rightarrow> processTakeMedicine userId usr (p_timeSlot p) w1)"

text \<open>
  The text handler receives the outcome of its pattern matching: one constructor per
  branch, in the source's order, with the captured groups.
\<close>

datatype command =
    Show_medicines
  | Add string nat nat nat
  | Set_time int string string
  | Taken
  | Take_slot int
  | Take_named string
  | Refill string nat
  | Delete string
  | Summary
  | Show_times
  | Help
  | Unknown

definition padStart2 :: "string \<Rightarrow> string" where
  "padStart2 s = replicate (2 - length s) (CHR ''0'') @ s"

definition handleTextMessage ::
  "int \<Rightarrow> int \<Rightarrow> string \<Rightarrow> command \<Rightarrow> string \<Rightarrow> user \<Rightarrow> world \<Rightarrow> reply \<times> world" where
  "handleTextMessage now currentHour isoText cmd userId usr w =
     (case cmd of
        Show_medicines \<Rightarrow>
          (if length (medicines usr) = 0 then (Reply_no_medicines_yet, w)
           else (Reply_summary usr, w))
      | Add nm nTotal nPerDose nSlot \<Rightarrow>
          (case addMedicine now isoText userId nm nTotal nPerDose nSlot w of
             (m, w1) \<Rightarrow>
               (case getUser userId w1 of
                  (updatedUser, w2) \<Rightarrow>
                    (Reply_added m
                       (if nSlot = 1 then time1 (settings updatedUser)
                        else time2 (settings updatedUser)), w2)))
      | Set_time slot hour minute \<Rightarrow>
          (let timeStr = padStart2 hour @ '':'' @ minute in
           case setTime userId slot timeStr w of
             (st, w1) \<Rightarrow>
               (case getUser userId w1 of
                  (updatedUser, w2) \<Rightarrow> (Reply_time_set slot timeStr (settings updatedUser), w2)))
      | Taken \<Rightarrow>
          (case getPendingReminder now userId w of
             (pend, w1) \<Rightarrow>
               (let currentSlot =
                      (case pend of
                         None \<Rightarrow> None
                       | Some p \<Rightarrow> if p_timeSlot p = 0 then None else Some (p_timeSlot p));
                    currentSlot' =
                      (case currentSlot of
                         None \<Rightarrow> slot_by_clock currentHour (settings usr)
                       | Some s \<Rightarrow> Some s)
                in case currentSlot' of
                     None \<Rightarrow> (Reply_which_medicine, w1)
                   | Some s \<Rightarrow> processTakeMedicine userId usr s w1))
      | Take_slot slot \<Rightarrow> processTakeMedicine userId usr slot w
      | Take_named medicineName \<Rightarrow>
          (case find (name_includes medicineName) (medicines usr) of
             None \<Rightarrow> (Reply_name_not_found medicineName, w)
           | Some m \<Rightarrow>
               (case takeMedicine userId (med_id m) w of
                  (Inl msg, w1) \<Rightarrow> (Reply_failure msg, w1)
                | (Inr (m', alert), w1) \<Rightarrow> (Reply_taken m' alert, w1)))
      | Refill medicineName amount \<Rightarrow>
          (case refillMedicine userId medicineName amount w of
             (Inl msg, w1) \<Rightarrow> (Reply_failure msg, w1)
           | (Inr m, w1) \<Rightarrow> (Reply_refilled m amount, w1))
      | Delete medicineName \<Rightarrow>
          (case deleteMedicine userId medicineName w of
             (Inl msg, w1) \<Rightarrow> (Reply_failure msg, w1)
           | (Inr m, w1) \<Rightarrow> (Reply_deleted m, w1))
      | Summary \<Rightarrow>
          (if length (medicines usr) = 0 then (Reply_no_medicines, w)
           else (Reply_summary usr, w))
      | Show_times \<Rightarrow> (Reply_times (settings usr), w)
      | Help \<Rightarrow> (Reply_help, w)
      | Unknown \<Rightarrow> (Reply_hint, w))"

text \<open>
  \<^verbatim>\<open>handleEvent\<close> for a message event: the profile is loaded first and handed to the
  handler of the message's type.
\<close>

datatype event_message = Sticker | Text command | Other

definition handleEvent ::
  "int \<Rightarrow> int \<Rightarrow> string \<Rightarrow> string \<Rightarrow> event_message \<Rightarrow> world \<Rightarrow> reply option \<times> world" where
  "handleEvent now currentHour isoText userId msg w =
     (case getUser userId w of
        (usr, w1) \<Rightarrow>
          (case msg of
             Sticker \<Rightarrow>
               (case handleStickerMessage now currentHour userId usr w1 of
                  (r, w2) \<Rightarrow> (Some r, w2))
           | Text cmd \<Rightarrow>
               (case handleTextMessage now currentHour isoText cmd userId usr w1 of
                  (r, w2) \<Rightarrow> (Some r, w2))
           | Other \<Rightarrow> (None, w1)))"

section \<open>Initial state\<close>

text \<open>A freshly started process on an empty store: the \<^verbatim>\<open>Map\<close> is new, no timer is set.\<close>

definition initialWorld :: world where
  "initialWorld =
     \<lparr>redis = None, faults = [], errlog = [], pendingReminders = Map.empty, timers = []\<rparr>"

section \<open>Sequences of medicine operations\<close>

text \<open>
  The four medicine functions that change a profile's medicines, as operations on the
  profile, and the profile a sequence of them leaves.
\<close>

datatype operation =
    AddMedicine int string string nat nat nat
  | TakeMedicine string
  | RefillMedicine string nat
  | DeleteMedicine string

fun apply_operation :: "user \<Rightarrow> operation \<Rightarrow> user" where
  "apply_operation u (AddMedicine now isoText nm nTotal nPerDose nSlot) =
     snd (addMedicine_profile now isoText u nm nTotal nPerDose nSlot)"
| "apply_operation u (TakeMedicine medicineId) = snd (takeMedicine_profile u medicineId)"
| "apply_operation u (RefillMedicine medicineName amount) =
     snd (refillMedicine_profile u medicineName amount)"
| "apply_operation u (DeleteMedicine medicineName) =
     snd (deleteMedicine_profile u medicineName)"

definition apply_operations :: "user \<Rightarrow> operation list \<Rightarrow> user" where
  "apply_operations u ops = foldl apply_operation u ops"

definition stock_not_negative :: "user \<Rightarrow> bool" where
  "stock_not_negative u = list_all (\<lambda>m. 0 \<le> remainingPills m) (medicines u)"

section \<open>Batch dose recording as the specification words it\<close>





section \<open>Example data\<close>

definition paracetamol :: medicine where
  "paracetamol =
     \<lparr>med_id = ''med_1700000000000'', name = ''Paracetamol'', totalPills = 30,
      remainingPills = 12, pillsPerDose = 2, timeSlot = 1,
      createdAt = ''2023-11-14T22:13:20.000Z''\<rparr>"

definition vitamin :: medicine where
  "vitamin =
     \<lparr>med_id = ''med_1700000000500'', name = ''Vitamin C (para-free)'', totalPills = 10,
      remainingPills = 4, pillsPerDose = 1, timeSlot = 2,
      createdAt = ''2023-11-14T22:13:20.500Z''\<rparr>"

definition syrup :: medicine where
  "syrup =
     \<lparr>med_id = ''med_1700000000900'', name = ''Cough syrup'', totalPills = 9,
      remainingPills = 1, pillsPerDose = 2, timeSlot = 1,
      createdAt = ''2023-11-14T22:13:20.900Z''\<rparr>"

definition exampleUser :: user where
  "exampleUser =
     \<lparr>medicines = [paracetamol, vitamin, syrup],
      settings = \<lparr>time1 = ''08:00'', time2 = ''20:00''\<rparr>,
      alertedMedicines = [''med_1700000000500'' \<mapsto> 2]\<rparr>"

definition exampleWorld :: world where
  "exampleWorld = initialWorld\<lparr>redis := Some [''U1'' \<mapsto> exampleUser]\<rparr>"



text \<open>
  The example user after the slot-1 medicines have run out, and the process that sent
  this user the slot-1 reminder at time 0 while there was stock.
\<close>

definition emptiedUser :: user where
  "emptiedUser =
     exampleUser\<lparr>medicines := [paracetamol\<lparr>remainingPills := 0\<rparr>, vitamin]\<rparr>"

definition emptiedWorld :: world where
  "emptiedWorld =
     setPendingReminder 0 ''U1'' 1 (initialWorld\<lparr>redis := Some [''U1'' \<mapsto> emptiedUser]\<rparr>)"

section \<open>Properties of the reminder state\<close>

lemma fireTimers_absent:
  "m userId = None \<Longrightarrow> fireTimers now ts m userId = None"
  by (induction ts arbitrary: m) auto

lemma fireTimers_due:
  "(due, userId) \<in> set ts \<Longrightarrow> due \<le> now \<Longrightarrow> fireTimers now ts m userId = None"
proof (induction ts arbitrary: m)
  case Nil
  then show ?case by simp
next
  case (Cons t ts)
  show ?case
  proof (cases "(due, userId) = t")
    case True
    then have "fireTimers now (t # ts) m = fireTimers now ts (m(userId := None))"
      using Cons.prems by auto
    then show ?thesis by (simp add: fireTimers_absent)
  next
    case False
    with Cons.prems have "(due, userId) \<in> set ts" by auto
    with Cons.IH Cons.prems show ?thesis by (cases t) simp
  qed
qed

text \<open>
  Claim C1. Arming records the slot with the current time and replaces the entry the user
  had, but the entry is not kept until 30 minutes after its own \<open>timestamp\<close>: the timer
  of an earlier arm for the same user is never cancelled and deletes whatever entry is
  stored under the user id when it runs. A user armed for slot 1 at time 0 and for slot 2
  twenty minutes later holds the slot-2 entry after the second arm, and has lost it at
  minute 30, when the entry is ten minutes old; a look-up at minute 35 finds nothing.
\<close>

theorem stale_timer_deletes_rearmed_entry:
  "pendingReminders (setPendingReminder 1200000 userId 2 (setPendingReminder 0 userId 1 w)) userId
     = Some \<lparr>p_timeSlot = 2, timestamp = 1200000\<rparr>
   \<and> pendingReminders
       (runTimers 1800000 (setPendingReminder 1200000 userId 2 (setPendingReminder 0 userId 1 w)))
       userId = None
   \<and> fst (getPendingReminder 2100000 userId
       (runTimers 1800000 (setPendingReminder 1200000 userId 2 (setPendingReminder 0 userId 1 w))))
     = None"
proof -
  have "fireTimers 1800000 (timers w @ [(1800000, userId), (3000000, userId)]) m userId = None"
    for m
    by (rule fireTimers_due [where due = 1800000]) simp_all
  then show ?thesis
    by (simp add: runTimers_def setPendingReminder_def getPendingReminder_def thirty_minutes_def)
qed



section \<open>Properties of the medicine functions\<close>

lemma findIndex_Some_iff:
  "findIndex P xs = Some i \<longleftrightarrow> i < length xs \<and> P (xs ! i) \<and> (\<forall>j<i. \<not> P (xs ! j))"
proof (induction xs arbitrary: i)
  case Nil
  then show ?case by simp
next
  case (Cons x xs)
  show ?case
  proof (cases "P x")
    case True
    then show ?thesis by (cases i) auto
  next
    case False
    show ?thesis
    proof (cases i)
      case 0
      with False show ?thesis by auto
    next
      case (Suc k)
      have "(\<forall>j<Suc k. \<not> P ((x # xs) ! j)) \<longleftrightarrow> (\<forall>j<k. \<not> P (xs ! j))"
        using False by (auto simp: less_Suc_eq_0_disj)
      with False Suc Cons.IH [of k] show ?thesis by auto
    qed
  qed
qed

lemma findIndex_None_iff: "findIndex P xs = None \<longleftrightarrow> (\<forall>x\<in>set xs. \<not> P x)"
  by (induction xs) auto

lemma find_findIndex: "find P xs = map_option (\<lambda>i. xs ! i) (findIndex P xs)"
  by (induction xs) (auto simp: option.map_comp comp_def)

lemma findIndex_nth_in: "findIndex P xs = Some i \<Longrightarrow> i < length xs \<and> P (xs ! i)"
  by (simp add: findIndex_Some_iff)




lemma list_all_update:
  "list_all P xs \<Longrightarrow> P x \<Longrightarrow> list_all P (xs[i := x])"
  by (induction xs arbitrary: i) (auto split: nat.splits)

lemma takeMedicine_profile_stock:
  "stock_not_negative u \<Longrightarrow> stock_not_negative (snd (takeMedicine_profile u medicineId))"
  by (auto simp: takeMedicine_profile_def stock_not_negative_def Let_def
      intro!: list_all_update split: option.splits)

lemma refillMedicine_profile_stock:
  "stock_not_negative u \<Longrightarrow> stock_not_negative (snd (refillMedicine_profile u medicineName amount))"
  by (auto simp: refillMedicine_profile_def stock_not_negative_def Let_def list_all_length
      findIndex_Some_iff nth_list_update split: option.splits)

lemma deleteMedicine_profile_stock:
  "stock_not_negative u \<Longrightarrow> stock_not_negative (snd (deleteMedicine_profile u medicineName))"
  by (auto simp: deleteMedicine_profile_def stock_not_negative_def Let_def list_all_iff
      dest: in_set_takeD in_set_dropD split: option.splits)

lemma addMedicine_profile_stock:
  "stock_not_negative u \<Longrightarrow>
   stock_not_negative (snd (addMedicine_profile now isoText u nm nTotal nPerDose nSlot))"
  by (simp add: addMedicine_profile_def stock_not_negative_def Let_def)

lemma apply_operation_stock:
  "stock_not_negative u \<Longrightarrow> stock_not_negative (apply_operation u operation)"
  by (cases operation)
    (simp_all add: addMedicine_profile_stock takeMedicine_profile_stock
      refillMedicine_profile_stock deleteMedicine_profile_stock)

lemma apply_operations_stock:
  "stock_not_negative u \<Longrightarrow> stock_not_negative (apply_operations u ops)"
  unfolding apply_operations_def
  by (induction ops arbitrary: u) (simp_all add: apply_operation_stock)

text \<open>
  Claim C4. A profile in which no medicine has negative stock stays so under every
  sequence of add, take, refill and delete operations; and a successful \<open>takeMedicine\<close>
  leaves the medicine it took with stock \<open>\<ge> 0\<close>, because it rejects the dose when the
  stock is below \<open>pillsPerDose\<close>.
\<close>

theorem remainingPills_never_negative:
  "(stock_not_negative u \<longrightarrow> stock_not_negative (apply_operations u ops))
   \<and> (takeMedicine_profile u medicineId = (Inr (m, alert), u') \<longrightarrow>
        0 \<le> remainingPills m \<and> (stock_not_negative u \<longrightarrow> stock_not_negative u'))"
proof (intro conjI impI)
  assume "stock_not_negative u"
  then show "stock_not_negative (apply_operations u ops)" by (rule apply_operations_stock)
next
  assume "takeMedicine_profile u medicineId = (Inr (m, alert), u')"
  then show "0 \<le> remainingPills m"
    by (auto simp: takeMedicine_profile_def Let_def split: option.splits if_splits)
next
  assume t: "takeMedicine_profile u medicineId = (Inr (m, alert), u')"
  assume "stock_not_negative u"
  then have "stock_not_negative (snd (takeMedicine_profile u medicineId))"
    by (simp add: takeMedicine_profile_stock)
  with t show "stock_not_negative u'" by simp
qed


theorem remainingPills_never_negative_witness:
  "stock_not_negative exampleUser
   \<and> stock_not_negative
        (apply_operations exampleUser
           [TakeMedicine ''med_1700000000000'', RefillMedicine ''syrup'' 3,
            DeleteMedicine ''vitamin'', AddMedicine 1700000001000 ''2023'' ''Zinc'' 5 1 2,
            TakeMedicine ''med_1700000000900'', TakeMedicine ''med_1700000000900'',
            TakeMedicine ''med_1700000000900''])
   \<and> fst (takeMedicine_profile exampleUser ''med_1700000000500'')
       = Inr (vitamin\<lparr>remainingPills := 3\<rparr>, None)
   \<and> 0 \<le> remainingPills (vitamin\<lparr>remainingPills := 3\<rparr>)
   \<and> stock_not_negative (snd (takeMedicine_profile exampleUser ''med_1700000000500''))"
proof -
  let ?ops = "[TakeMedicine ''med_1700000000000'', RefillMedicine ''syrup'' 3,
            DeleteMedicine ''vitamin'', AddMedicine 1700000001000 ''2023'' ''Zinc'' 5 1 2,
            TakeMedicine ''med_1700000000900'', TakeMedicine ''med_1700000000900'',
            TakeMedicine ''med_1700000000900'']"
  let ?m = "vitamin\<lparr>remainingPills := 3\<rparr>"
  let ?u' = "snd (takeMedicine_profile exampleUser ''med_1700000000500'')"
  have a: "stock_not_negative exampleUser"
    by (simp add: stock_not_negative_def exampleUser_def paracetamol_def vitamin_def syrup_def)
  have b1: "fst (takeMedicine_profile exampleUser ''med_1700000000500'') = Inr (?m, None)"
    by (simp add: takeMedicine_profile_def exampleUser_def paracetamol_def vitamin_def syrup_def
        falsy_def less_than_2_def Let_def)
  then have b: "takeMedicine_profile exampleUser ''med_1700000000500'' = (Inr (?m, None), ?u')"
    by (simp add: prod_eq_iff)
  note r = remainingPills_never_negative [of exampleUser ?ops "''med_1700000000500''" ?m None ?u']
  from r a have c: "stock_not_negative (apply_operations exampleUser ?ops)" by blast
  from r b have d: "0 \<le> remainingPills ?m" by blast
  from r a b have e: "stock_not_negative ?u'" by blast
  show ?thesis
    by (intro conjI) (rule a b1 c d e)+
qed

section \<open>The store when every call succeeds\<close>

lemma redis_call_ok: "faults w = [] \<Longrightarrow> redis_call w = (False, w)"
  by (simp add: redis_call_def)

lemma loadData_ok: "faults w = [] \<Longrightarrow> redis w = Some d \<Longrightarrow> loadData w = (d, w)"
  by (simp add: loadData_def redis_call_ok)

lemma saveData_ok: "faults w = [] \<Longrightarrow> saveData d w = w\<lparr>redis := Some d\<rparr>"
  by (simp add: saveData_def redis_call_ok)

lemma getUser_stored:
  "faults w = [] \<Longrightarrow> redis w = Some d \<Longrightarrow> d userId = Some u \<Longrightarrow> getUser userId w = (u, w)"
  by (simp add: getUser_def loadData_ok)

lemma saveUser_stored:
  "faults w = [] \<Longrightarrow> redis w = Some d \<Longrightarrow>
   saveUser userId u' w = w\<lparr>redis := Some (d(userId \<mapsto> u'))\<rparr>"
  by (simp add: saveUser_def loadData_ok saveData_ok)

lemma takeMedicine_stored:
  "faults w = [] \<Longrightarrow> redis w = Some d \<Longrightarrow> d userId = Some u \<Longrightarrow>
   takeMedicine userId medicineId w =
     (case takeMedicine_profile u medicineId of
        (Inl msg, u') \<Rightarrow> (Inl msg, w)
      | (Inr r, u') \<Rightarrow> (Inr r, w\<lparr>redis := Some (d(userId \<mapsto> u'))\<rparr>))"
  by (simp add: takeMedicine_def getUser_stored saveUser_stored split: prod.splits sum.splits)

text \<open>
  Claim C5. When no medicine of the profile has the given id, or the one that has it holds
  fewer pills than one dose, \<open>takeMedicine\<close> returns a failure with its message and the
  profile is the one it was: nothing is decremented, the ledger is untouched, and on a
  working store that holds the profile nothing is written.
\<close>

theorem takeMedicine_failure_leaves_profile:
  "(find (\<lambda>m. med_id m = medicineId) (medicines u) = None \<longrightarrow>
      takeMedicine_profile u medicineId = (Inl Not_found, u))
   \<and> (\<forall>m. find (\<lambda>m. med_id m = medicineId) (medicines u) = Some m
           \<and> remainingPills m < pillsPerDose m \<longrightarrow>
         takeMedicine_profile u medicineId = (Inl (Depleted (name m)), u))
   \<and> ((find (\<lambda>m. med_id m = medicineId) (medicines u) = None
        \<or> (\<exists>m. find (\<lambda>m. med_id m = medicineId) (medicines u) = Some m
              \<and> remainingPills m < pillsPerDose m))
       \<and> faults w = [] \<and> redis w = Some d \<and> d userId = Some u \<longrightarrow>
         (\<exists>msg. takeMedicine userId medicineId w = (Inl msg, w)))"
proof -
  have none: "takeMedicine_profile u medicineId = (Inl Not_found, u)"
    if "find (\<lambda>m. med_id m = medicineId) (medicines u) = None"
    using that by (simp add: takeMedicine_profile_def find_findIndex)
  have short: "takeMedicine_profile u medicineId = (Inl (Depleted (name m)), u)"
    if "find (\<lambda>m. med_id m = medicineId) (medicines u) = Some m"
      and "remainingPills m < pillsPerDose m" for m
    using that by (auto simp: takeMedicine_profile_def find_findIndex Let_def)
  have "\<exists>msg. takeMedicine userId medicineId w = (Inl msg, w)"
    if "find (\<lambda>m. med_id m = medicineId) (medicines u) = None
        \<or> (\<exists>m. find (\<lambda>m. med_id m = medicineId) (medicines u) = Some m
              \<and> remainingPills m < pillsPerDose m)"
      and "faults w = []" and "redis w = Some d" and "d userId = Some u"
    using that none short by (auto simp: takeMedicine_stored)
  with none short show ?thesis by blast
qed

theorem takeMedicine_failure_leaves_profile_witness:
  "find (\<lambda>m. med_id m = ''med_0'') (medicines exampleUser) = None
   \<and> takeMedicine_profile exampleUser ''med_0'' = (Inl Not_found, exampleUser)
   \<and> find (\<lambda>m. med_id m = ''med_1700000000900'') (medicines exampleUser) = Some syrup
   \<and> remainingPills syrup < pillsPerDose syrup
   \<and> takeMedicine_profile exampleUser ''med_1700000000900''
       = (Inl (Depleted ''Cough syrup''), exampleUser)
   \<and> faults exampleWorld = [] \<and> redis exampleWorld = Some [''U1'' \<mapsto> exampleUser]
   \<and> [''U1'' \<mapsto> exampleUser] ''U1'' = Some exampleUser
   \<and> (\<exists>msg. takeMedicine ''U1'' ''med_1700000000900'' exampleWorld = (Inl msg, exampleWorld))"
proof -
  have a: "find (\<lambda>m. med_id m = ''med_0'') (medicines exampleUser) = None"
    by (simp add: exampleUser_def paracetamol_def vitamin_def syrup_def)
  have b: "find (\<lambda>m. med_id m = ''med_1700000000900'') (medicines exampleUser) = Some syrup"
    by (simp add: exampleUser_def paracetamol_def vitamin_def syrup_def)
  have c: "remainingPills syrup < pillsPerDose syrup"
    by (simp add: syrup_def)
  have d: "faults exampleWorld = []" "redis exampleWorld = Some [''U1'' \<mapsto> exampleUser]"
    "[''U1'' \<mapsto> exampleUser] ''U1'' = Some exampleUser"
    by (simp_all add: exampleWorld_def initialWorld_def)
  note r = takeMedicine_failure_leaves_profile
  from r [of "''med_0''" exampleUser] a
  have e: "takeMedicine_profile exampleUser ''med_0'' = (Inl Not_found, exampleUser)"
    by blast
  from r [of "''med_1700000000900''" exampleUser] b c
  have f: "takeMedicine_profile exampleUser ''med_1700000000900''
       = (Inl (Depleted ''Cough syrup''), exampleUser)"
    by (auto simp: syrup_def)
  from r [of "''med_1700000000900''" exampleUser exampleWorld "[''U1'' \<mapsto> exampleUser]" "''U1''"]
    b c d
  have g: "\<exists>msg. takeMedicine ''U1'' ''med_1700000000900'' exampleWorld = (Inl msg, exampleWorld)"
    by blast
  show ?thesis
    by (intro conjI) (rule a b c d e f g)+
qed

section \<open>The store when calls fail\<close>

text \<open>
  Claim C9, as stated, fails: a failed read does not abort the operation. \<open>loadData\<close>
  swallows the error and hands back the empty object, and \<open>saveUser\<close> goes on to write
  that object with the one user added. With the profile of user U1 stored and the read
  failing, saving a profile for U2 leaves a store that holds U2 alone.
\<close>

theorem failed_read_wipes_store_counterexample:
  "redis (exampleWorld\<lparr>faults := [True]\<rparr>) = Some [''U1'' \<mapsto> exampleUser]
   \<and> redis (saveUser ''U2'' defaultUser (exampleWorld\<lparr>faults := [True]\<rparr>))
       = Some [''U2'' \<mapsto> defaultUser]
   \<and> errlog (saveUser ''U2'' defaultUser (exampleWorld\<lparr>faults := [True]\<rparr>))
       = [Error_loading_data]
   \<and> redis (saveUser ''U2'' defaultUser (exampleWorld\<lparr>faults := [True]\<rparr>))
       \<noteq> redis (exampleWorld\<lparr>faults := [True]\<rparr>)"
proof -
  have a: "redis (exampleWorld\<lparr>faults := [True]\<rparr>) = Some [''U1'' \<mapsto> exampleUser]"
    by (simp add: exampleWorld_def initialWorld_def)
  have b: "redis (saveUser ''U2'' defaultUser (exampleWorld\<lparr>faults := [True]\<rparr>))
       = Some [''U2'' \<mapsto> defaultUser]"
    by (simp add: saveUser_def loadData_def saveData_def redis_call_def exampleWorld_def
        initialWorld_def)
  have c: "errlog (saveUser ''U2'' defaultUser (exampleWorld\<lparr>faults := [True]\<rparr>))
       = [Error_loading_data]"
    by (simp add: saveUser_def loadData_def saveData_def redis_call_def exampleWorld_def
        initialWorld_def)
  have "[''U2'' \<mapsto> defaultUser] ''U1'' \<noteq> [''U1'' \<mapsto> exampleUser] ''U1''"
    by simp
  then have "[''U2'' \<mapsto> defaultUser] \<noteq> [''U1'' \<mapsto> exampleUser]"
    by metis
  with a b c show ?thesis by simp
qed

text \<open>
  Claim C9, amended. A store failure is logged and swallowed. With \<open>r\<close> and \<open>s\<close> saying
  whether the read and the write of a \<open>saveUser\<close> throw: the log receives one line per
  failure; a failed write leaves the stored data as it was; a successful write after a
  failed read replaces the stored data of all users by the saved profile alone; with both
  calls working the saved profile is added to the stored data. \<open>getUser\<close> after a failed
  read returns the default profile and writes it in the same way.
\<close>

theorem store_failures_are_swallowed:
  "(faults w = r # s # fs \<longrightarrow>
      saveUser userId userData w =
        w\<lparr>faults := fs,
          errlog := errlog w @ (if r then [Error_loading_data] else [])
                      @ (if s then [Error_saving_data] else []),
          redis := (if s then redis w
                    else Some ((if r then Map.empty
                                else (case redis w of None \<Rightarrow> Map.empty | Some d \<Rightarrow> d))
                               (userId \<mapsto> userData)))\<rparr>)
   \<and> (faults w = True # s # fs \<longrightarrow>
      getUser userId w =
        (defaultUser,
         w\<lparr>faults := fs,
           errlog := errlog w @ [Error_loading_data] @ (if s then [Error_saving_data] else []),
           redis := (if s then redis w else Some [userId \<mapsto> defaultUser])\<rparr>))"
  by (auto simp: saveUser_def getUser_def loadData_def saveData_def redis_call_def
      split: option.splits)

theorem store_failures_are_swallowed_witness:
  "faults (exampleWorld\<lparr>faults := [True, False]\<rparr>) = True # False # []
   \<and> saveUser ''U2'' defaultUser (exampleWorld\<lparr>faults := [True, False]\<rparr>)
       = exampleWorld\<lparr>errlog := [Error_loading_data], redis := Some [''U2'' \<mapsto> defaultUser]\<rparr>
   \<and> getUser ''U1'' (exampleWorld\<lparr>faults := [True, False]\<rparr>)
       = (defaultUser,
          exampleWorld\<lparr>errlog := [Error_loading_data], redis := Some [''U1'' \<mapsto> defaultUser]\<rparr>)"
proof -
  let ?w = "exampleWorld\<lparr>faults := [True, False]\<rparr>"
  have a: "faults ?w = True # False # []" by simp
  from store_failures_are_swallowed [where w = ?w and r = True and s = False and fs = "[]"
      and userId = "''U2''" and userData = defaultUser] a
  have b: "saveUser ''U2'' defaultUser ?w
       = exampleWorld\<lparr>errlog := [Error_loading_data], redis := Some [''U2'' \<mapsto> defaultUser]\<rparr>"
    by (simp add: exampleWorld_def initialWorld_def)
  from store_failures_are_swallowed [where w = ?w and r = True and s = False and fs = "[]"
      and userId = "''U1''"] a
  have c: "getUser ''U1'' ?w
       = (defaultUser,
          exampleWorld\<lparr>errlog := [Error_loading_data], redis := Some [''U1'' \<mapsto> defaultUser]\<rparr>)"
    by (simp add: exampleWorld_def initialWorld_def)
  show ?thesis
    by (intro conjI) (rule a b c)+
qed

section \<open>Properties of the handlers\<close>

text \<open>
  Claim C7 does not hold of the code: when no medicine of the slot has stock,
  \<open>processTakeMedicine\<close> returns its reply before the line that deletes the pending
  entry, and the state is the one it was given. A sticker that resolves to a fresh pending
  entry then leaves the entry where it is, and the next reply resolves to it again.
\<close>

theorem nothing_to_take_keeps_pending:
  "filter (\<lambda>m. timeSlot m = slot \<and> remainingPills m > 0) (medicines usr) = [] \<Longrightarrow>
     processTakeMedicine userId usr slot w = (Reply_nothing_to_take slot, w)
     \<and> (pendingReminders w userId = Some p \<and> now - timestamp p \<le> thirty_minutes
          \<and> p_timeSlot p = slot \<longrightarrow>
        handleStickerMessage now currentHour userId usr w = (Reply_nothing_to_take slot, w))"
  by (simp add: processTakeMedicine_def handleStickerMessage_def getPendingReminder_def)

theorem nothing_to_take_keeps_pending_witness:
  "filter (\<lambda>m. timeSlot m = 1 \<and> remainingPills m > 0) (medicines emptiedUser) = []
   \<and> pendingReminders emptiedWorld ''U1'' = Some \<lparr>p_timeSlot = 1, timestamp = 0\<rparr>
   \<and> 300000 - timestamp \<lparr>p_timeSlot = 1, timestamp = 0\<rparr> \<le> thirty_minutes
   \<and> handleStickerMessage 300000 8 ''U1'' emptiedUser emptiedWorld
       = (Reply_nothing_to_take 1, emptiedWorld)
   \<and> pendingReminders (snd (handleStickerMessage 300000 8 ''U1'' emptiedUser emptiedWorld)) ''U1''
       = Some \<lparr>p_timeSlot = 1, timestamp = 0\<rparr>"
proof -
  let ?p = "\<lparr>p_timeSlot = 1, timestamp = 0\<rparr>"
  have a: "filter (\<lambda>m. timeSlot m = 1 \<and> remainingPills m > 0) (medicines emptiedUser) = []"
    by (simp add: emptiedUser_def exampleUser_def paracetamol_def vitamin_def)
  have b: "pendingReminders emptiedWorld ''U1'' = Some ?p"
    by (simp add: emptiedWorld_def setPendingReminder_def)
  have c: "300000 - timestamp ?p \<le> thirty_minutes"
    by (simp add: thirty_minutes_def)
  have d: "handleStickerMessage 300000 8 ''U1'' emptiedUser emptiedWorld
       = (Reply_nothing_to_take 1, emptiedWorld)"
    using nothing_to_take_keeps_pending [OF a, of "''U1''" emptiedWorld ?p 300000 8] b c
    by simp
  have e: "pendingReminders (snd (handleStickerMessage 300000 8 ''U1'' emptiedUser emptiedWorld)) ''U1''
       = Some ?p"
    by (simp add: d b)
  show ?thesis
    by (intro conjI) (rule a b c d e)+
qed




section \<open>Resolving a medicine by name\<close>







section \<open>Batch dose recording\<close>





lemma takeMedicine_profile_Inl:
  "fst (takeMedicine_profile u k) = Inl msg \<Longrightarrow> snd (takeMedicine_profile u k) = u"
  by (auto simp: takeMedicine_profile_def Let_def split: option.splits if_splits)






end
